theory Spec2Isabelle
  imports Complex_Main "HOL-Library.Sublist" "HOL-Library.Monad_Syntax"
    "HOL-Library.Code_Target_Nat"
begin

section \<open>Python text\<close>

text \<open>
  A Python \<open>str\<close> is a sequence of Unicode code points, so a text is a list of natural
  numbers. \<open>asc\<close> writes an ASCII literal; the Cyrillic literals of the source are written
  out by code point below.
\<close>

type_synonym ustring = "nat list"

definition asc :: "string \<Rightarrow> ustring" where
  "asc s = map of_char s"

text \<open>
  The white space of \<open>str.strip()\<close> and of the pattern class \<open>\s\<close> (both ask CPython's
  \<open>Py_UNICODE_ISSPACE\<close>).
\<close>

definition is_space :: "nat \<Rightarrow> bool" where
  "is_space c \<longleftrightarrow>
     (0x09 \<le> c \<and> c \<le> 0x0D) \<or> (0x1C \<le> c \<and> c \<le> 0x20) \<or> c = 0x85 \<or> c = 0xA0 \<or>
     c = 0x1680 \<or> (0x2000 \<le> c \<and> c \<le> 0x200A) \<or> c = 0x2028 \<or> c = 0x2029 \<or>
     c = 0x202F \<or> c = 0x205F \<or> c = 0x3000"

text \<open>
  What the interpreter supplies and the repository does not fix: the table of Unicode
  decimal digits (the class \<open>\d\<close> and the digits \<open>int()\<close> accepts, with their values),
  \<open>str.lower()\<close>, and the float quotient \<open>cents / 100.0\<close> (a float is the real number it
  denotes; amounts beyond the range of a float, where CPython raises, are outside the
  model). The functions below take them as one parameter.
\<close>

record runtime =
  decimal :: "nat \<Rightarrow> nat option"
  lower :: "ustring \<Rightarrow> ustring"
  div100 :: "int \<Rightarrow> real"

text \<open>
  The instance used for concrete runs: ASCII digits, ASCII lower-casing, exact division.
  It agrees with CPython on ASCII text and on cent amounts whose hundredth is a binary
  fraction (such as 1500 cents = 15.0).
\<close>

definition ascii_decimal :: "nat \<Rightarrow> nat option" where
  "ascii_decimal c = (if 48 \<le> c \<and> c \<le> 57 then Some (c - 48) else None)"

definition ascii_lower :: "ustring \<Rightarrow> ustring" where
  "ascii_lower s = map (\<lambda>c. if 65 \<le> c \<and> c \<le> 90 then c + 32 else c) s"

definition ascii_rt :: runtime where
  "ascii_rt = \<lparr>decimal = ascii_decimal, lower = ascii_lower, div100 = (\<lambda>p. of_int p / 100)\<rparr>"

text \<open>\<open>sub in s\<close> on texts.\<close>

fun contains :: "ustring \<Rightarrow> ustring \<Rightarrow> bool" where
  "contains sub [] = (sub = [])"
| "contains sub (c # cs) = (take (length sub) (c # cs) = sub \<or> contains sub cs)"

text \<open>\<open>s.strip()\<close>: leading and trailing white space removed.\<close>

definition strip :: "ustring \<Rightarrow> ustring" where
  "strip s = rev (dropWhile is_space (rev (dropWhile is_space s)))"

text \<open>
  \<open>re.sub(r'<[^>]+>', '', s)\<close>: scanning from the left, a \<open><\<close> followed by one or more
  characters other than \<open>>\<close> and then a \<open>>\<close> is deleted and the scan resumes after it; any
  other character is kept. The run \<open>[^>]+\<close> is greedy and stops only at a \<open>>\<close> or at the
  end of the text, so giving characters back can never help.
\<close>

function strip_tags :: "ustring \<Rightarrow> ustring" where
  "strip_tags [] = []"
| "strip_tags (c # cs) =
     (if c = 60 \<and> takeWhile (\<lambda>x. x \<noteq> 62) cs \<noteq> [] \<and> dropWhile (\<lambda>x. x \<noteq> 62) cs \<noteq> []
      then strip_tags (tl (dropWhile (\<lambda>x. x \<noteq> 62) cs))
      else c # strip_tags cs)"
  by pat_completeness auto
termination
proof (relation "measure length")
  fix c :: nat and cs :: "nat list"
  show "(tl (dropWhile (\<lambda>x. x \<noteq> 62) cs), c # cs) \<in> measure length"
    using length_dropWhile_le [of "\<lambda>x. x \<noteq> 62" cs] by simp
qed auto

definition clean_text :: "ustring \<Rightarrow> ustring" where
  "clean_text v = strip (strip_tags v)"

section \<open>Pattern matching\<close>

text \<open>
  The patterns of the source are sequences of literals, one-character classes, \<open>\s+\<close> and a
  final \<open>(\d+)\<close>. Each piece maps the text at a position to the text after the piece, or
  to \<open>None\<close>. \<open>\s+\<close> takes the whole run of white space: the piece that follows it in
  every pattern starts with a character that is not white space, so a shorter run never
  matches where the longest does not. \<open>(\d+)\<close> ends its pattern and takes the whole run of
  digits; \<open>number\<close> is \<open>int(m.group(1))\<close> (conversion without a digit limit).
\<close>

definition one_of :: "nat list \<Rightarrow> ustring \<Rightarrow> ustring option" where
  "one_of cls s = (case s of [] \<Rightarrow> None | c # r \<Rightarrow> if c \<in> set cls then Some r else None)"

definition lit :: "ustring \<Rightarrow> ustring \<Rightarrow> ustring option" where
  "lit p s = (if take (length p) s = p then Some (drop (length p) s) else None)"

definition spaces1 :: "ustring \<Rightarrow> ustring option" where
  "spaces1 s = (if takeWhile is_space s = [] then None else Some (dropWhile is_space s))"

definition py_int :: "runtime \<Rightarrow> ustring \<Rightarrow> nat" where
  "py_int rt ds = foldl (\<lambda>a c. 10 * a + (case decimal rt c of Some v \<Rightarrow> v | None \<Rightarrow> 0)) 0 ds"

definition number :: "runtime \<Rightarrow> ustring \<Rightarrow> nat option" where
  "number rt s =
     (let ds = takeWhile (\<lambda>c. decimal rt c \<noteq> None) s
      in if ds = [] then None else Some (py_int rt ds))"

text \<open>\<open>re.search\<close>: the match at the leftmost position that has one.\<close>

fun search :: "(ustring \<Rightarrow> 'a option) \<Rightarrow> ustring \<Rightarrow> 'a option" where
  "search m [] = m []"
| "search m (c # cs) = (case m (c # cs) of Some r \<Rightarrow> Some r | None \<Rightarrow> search m cs)"

text \<open>The Cyrillic literals: \<open>tail of Stil'\<close>, \<open>uluchshenie\<close>, and the two locked words
  without their first letter.\<close>

definition ru_til :: ustring where
  "ru_til = [0x442, 0x438, 0x43B, 0x44C]"

definition ru_uluchshenie :: ustring where
  "ru_uluchshenie = [0x443, 0x43B, 0x443, 0x447, 0x448, 0x435, 0x43D, 0x438, 0x435]"

definition ru_ablokirovano :: ustring where
  "ru_ablokirovano =
     [0x430, 0x431, 0x43B, 0x43E, 0x43A, 0x438, 0x440, 0x43E, 0x432, 0x430, 0x43D, 0x43E]"

definition ru_ablokovano :: ustring where
  "ru_ablokovano = [0x430, 0x431, 0x43B, 0x43E, 0x43A, 0x43E, 0x432, 0x430, 0x43D, 0x43E]"

text \<open>\<open>[Ll]ocked|[Zz]ablokirovano|[Zz]ablokovano\<close> (the last two in Cyrillic).\<close>

definition locked_at :: "ustring \<Rightarrow> ustring option" where
  "locked_at s =
     (case one_of [76, 108] s \<bind> lit (asc ''ocked'') of
        Some r \<Rightarrow> Some r
      | None \<Rightarrow>
          (case one_of [0x417, 0x437] s \<bind> lit ru_ablokirovano of
             Some r \<Rightarrow> Some r
           | None \<Rightarrow> one_of [0x417, 0x437] s \<bind> lit ru_ablokovano))"

definition is_locked :: "ustring \<Rightarrow> bool" where
  "is_locked clean \<longleftrightarrow> search locked_at clean \<noteq> None"

text \<open>\<open>[Uu]pgrade\s+[Ss]tyle\s+(\d+)\<close>\<close>

definition upgrade_style_at :: "runtime \<Rightarrow> ustring \<Rightarrow> nat option" where
  "upgrade_style_at rt s =
     one_of [85, 117] s \<bind> lit (asc ''pgrade'') \<bind> spaces1 \<bind>
     one_of [83, 115] \<bind> lit (asc ''tyle'') \<bind> spaces1 \<bind> number rt"

text \<open>\<open>[Ss]tyle\s+(\d+)\<close>\<close>

definition style_at :: "runtime \<Rightarrow> ustring \<Rightarrow> nat option" where
  "style_at rt s = one_of [83, 115] s \<bind> lit (asc ''tyle'') \<bind> spaces1 \<bind> number rt"

text \<open>\<open>[Ss]til'[- ]uluchshenie\s+(\d+)\<close> (in Cyrillic)\<close>

definition ru_style_at :: "runtime \<Rightarrow> ustring \<Rightarrow> nat option" where
  "ru_style_at rt s =
     one_of [0x421, 0x441] s \<bind> lit ru_til \<bind> one_of [45, 32] \<bind>
     lit ru_uluchshenie \<bind> spaces1 \<bind> number rt"

text \<open>
  \<open>[Ss]tyle(?:\s+[Uu]pgrade)?\s+(\d+)\<close>: the optional group is tried first; when the rest
  fails after it, the rest is tried without it.
\<close>

definition tag_style_at :: "runtime \<Rightarrow> ustring \<Rightarrow> nat option" where
  "tag_style_at rt s =
     (case one_of [83, 115] s \<bind> lit (asc ''tyle'') of
        None \<Rightarrow> None
      | Some r \<Rightarrow>
          (case spaces1 r \<bind> one_of [85, 117] \<bind> lit (asc ''pgrade'') of
             Some r' \<Rightarrow>
               (case spaces1 r' \<bind> number rt of
                  Some n \<Rightarrow> Some n
                | None \<Rightarrow> spaces1 r \<bind> number rt)
           | None \<Rightarrow> spaces1 r \<bind> number rt))"

section \<open>Attribute extraction\<close>

text \<open>A description entry \<open>{type, value}\<close>; a key may be absent.\<close>

record description =
  d_type :: "ustring option"
  d_value :: "ustring option"

text \<open>\<open>desc.get("value", "")\<close>\<close>

definition value_of :: "description \<Rightarrow> ustring" where
  "value_of d = (case d_value d of None \<Rightarrow> [] | Some v \<Rightarrow> v)"

subsection \<open>extract_gems_from_descriptions\<close>

fun gems_loop :: "description list \<Rightarrow> ustring list \<Rightarrow> ustring list" where
  "gems_loop [] gems = gems"
| "gems_loop (d # ds) gems =
     (let v = value_of d in
      if contains (asc ''Prismatic:'') v \<or> contains (asc ''Ethereal:'') v then
        (let clean = clean_text v
         in gems_loop ds (if clean \<noteq> [] then gems @ [clean] else gems))
      else if d_type d = Some (asc ''html'') \<and> contains (asc ''color'') v then
        (let clean = clean_text v
         in gems_loop ds
              (if clean \<noteq> [] \<and> (contains (asc ''Gem'') clean \<or> contains (asc ''Prismatic'') clean
                    \<or> contains (asc ''Ethereal'') clean)
               then gems @ [clean] else gems))
      else gems_loop ds gems)"

definition extract_gems_from_descriptions :: "description list \<Rightarrow> ustring list" where
  "extract_gems_from_descriptions descriptions =
     (if descriptions = [] then [] else gems_loop descriptions [])"

subsection \<open>extract_socket_gems\<close>

fun socket_loop :: "description list \<Rightarrow> bool \<Rightarrow> ustring list \<Rightarrow> ustring list" where
  "socket_loop [] in_socket_section gems = gems"
| "socket_loop (d # ds) in_socket_section gems =
     (let v = value_of d;
          sec = (if contains (asc ''Socket'') v \<or> contains (asc ''Gem'') v then True
                 else in_socket_section)
      in if sec then
           (let clean = clean_text v
            in socket_loop ds sec
                 (if clean \<noteq> [] \<and> clean \<notin> set [[], asc ''Empty Socket'']
                  then gems @ [clean] else gems))
         else socket_loop ds sec gems)"

definition extract_socket_gems :: "description list \<Rightarrow> ustring list" where
  "extract_socket_gems descriptions =
     (if descriptions = [] then [] else socket_loop descriptions False [])"

subsection \<open>extract_unlocked_styles\<close>

text \<open>\<open>if style_num not in styles: styles.append(style_num)\<close>\<close>

definition add_style :: "nat \<Rightarrow> nat list \<Rightarrow> nat list" where
  "add_style style_num styles = (if style_num \<notin> set styles then styles @ [style_num] else styles)"

fun styles_loop :: "runtime \<Rightarrow> description list \<Rightarrow> nat list \<Rightarrow> nat list" where
  "styles_loop rt [] styles = styles"
| "styles_loop rt (d # ds) styles =
     (let clean = clean_text (value_of d) in
      if is_locked clean then styles_loop rt ds styles
      else
        (case search (upgrade_style_at rt) clean of
           Some style_num \<Rightarrow> styles_loop rt ds (add_style style_num styles)
         | None \<Rightarrow>
             (case search (style_at rt) clean of
                Some style_num \<Rightarrow> styles_loop rt ds (add_style style_num styles)
              | None \<Rightarrow>
                  (case search (ru_style_at rt) clean of
                     Some style_num \<Rightarrow> styles_loop rt ds (add_style style_num styles)
                   | None \<Rightarrow> styles_loop rt ds styles))))"

definition extract_unlocked_styles :: "runtime \<Rightarrow> description list \<Rightarrow> nat list" where
  "extract_unlocked_styles rt descriptions =
     (if descriptions = [] then [] else sort (styles_loop rt descriptions []))"

subsection \<open>get_max_style_from_tags\<close>

record tag =
  localized_tag_name :: "ustring option"
  tag_name :: "ustring option"

text \<open>\<open>tag.get("localized_tag_name", "") or tag.get("name", "")\<close>\<close>

definition tag_text :: "tag \<Rightarrow> ustring" where
  "tag_text t =
     (let l = (case localized_tag_name t of None \<Rightarrow> [] | Some s \<Rightarrow> s)
      in if l \<noteq> [] then l else (case tag_name t of None \<Rightarrow> [] | Some s \<Rightarrow> s))"

text \<open>\<open>if match: ... if style_num > max_style: max_style = style_num\<close>\<close>

definition raise_max :: "nat option \<Rightarrow> nat \<Rightarrow> nat" where
  "raise_max m max_style =
     (case m of Some style_num \<Rightarrow> if style_num > max_style then style_num else max_style
      | None \<Rightarrow> max_style)"

fun max_style_loop :: "runtime \<Rightarrow> tag list \<Rightarrow> nat \<Rightarrow> nat" where
  "max_style_loop rt [] max_style = max_style"
| "max_style_loop rt (t # ts) max_style =
     (let name = tag_text t
      in max_style_loop rt ts
           (raise_max (search (ru_style_at rt) name)
              (raise_max (search (tag_style_at rt) name) max_style)))"

definition get_max_style_from_tags :: "runtime \<Rightarrow> tag list \<Rightarrow> nat option" where
  "get_max_style_from_tags rt tags =
     (if tags = [] then None
      else (let max_style = max_style_loop rt tags 0
            in if max_style > 0 then Some max_style else None))"

section \<open>Listings of one page\<close>

text \<open>
  The records of the market's JSON, with the keys the source reads; a key may be absent.
  The three asset keys hold what \<open>str()\<close> makes of their values.
\<close>

record asset_ref =
  a_appid :: "ustring option"
  a_contextid :: "ustring option"
  a_id :: "ustring option"

record listing =
  converted_price :: "int option"
  converted_fee :: "int option"
  asset :: "asset_ref option"

record action =
  act_name :: "ustring option"
  act_link :: "ustring option"

record item_desc =
  market_hash_name :: "ustring option"
  descriptions :: "description list option"
  tags :: "tag list option"
  actions :: "action list option"
  market_actions :: "action list option"
  icon_url_large :: "ustring option"
  icon_url :: "ustring option"

type_synonym assets = "ustring \<rightharpoonup> (ustring \<rightharpoonup> (ustring \<rightharpoonup> item_desc))"

text \<open>
  The parser object: \<open>app_id\<close> as \<open>str()\<close> renders it, and the set of listing
  identifiers already reported.
\<close>

record parser =
  app_id :: ustring
  notified_listings :: "ustring set"

text \<open>The arguments of \<open>parse_listings\<close> that stay fixed during a scan.\<close>

record criteria =
  item_name :: ustring
  desired_gems :: "ustring list option"
  desired_styles :: "nat list option"
  max_price :: real

text \<open>
  An entry of \<open>found_items\<close>. The keys \<open>price\<close> (the formatted amount) and \<open>link\<close> (the
  quoted page address) are renderings of \<open>price_value\<close> and of the item name and are left out.
\<close>

record found_item =
  it_name :: ustring
  it_price_value :: real
  it_listing_id :: ustring
  it_gems :: "ustring list"
  it_styles :: "nat list"
  it_inspect_link :: "ustring option"
  it_image_url :: "ustring option"
  it_page :: nat


text \<open>\<open>s.replace(old, new)\<close> for a non-empty \<open>old\<close>.\<close>

fun replace :: "ustring \<Rightarrow> ustring \<Rightarrow> ustring \<Rightarrow> ustring" where
  "replace old new [] = []"
| "replace old new (c # cs) =
     (if old \<noteq> [] \<and> take (length old) (c # cs) = old
      then new @ replace old new (drop (length old - 1) cs)
      else c # replace old new cs)"

text \<open>\<open>listing.get("converted_price", 0) + listing.get("converted_fee", 0)\<close>\<close>

definition price_cents :: "listing \<Rightarrow> int" where
  "price_cents l =
     (case converted_price l of None \<Rightarrow> 0 | Some p \<Rightarrow> p) +
     (case converted_fee l of None \<Rightarrow> 0 | Some f \<Rightarrow> f)"

text \<open>The gems of an asset: the first extraction, and the socket scan when it is empty.\<close>

definition asset_gems :: "description list \<Rightarrow> ustring list" where
  "asset_gems ds =
     (let gems = extract_gems_from_descriptions ds
      in if gems = [] then extract_socket_gems ds else gems)"

text \<open>The styles of an asset: from the descriptions, and from the tags when there are none.\<close>

definition asset_styles :: "runtime \<Rightarrow> description list \<Rightarrow> tag list \<Rightarrow> nat list" where
  "asset_styles rt ds ts =
     (let styles = extract_unlocked_styles rt ds
      in if styles = [] then
           (case get_max_style_from_tags rt ts of
              Some max_style \<Rightarrow> if max_style \<noteq> 0 then [1..<max_style + 1] else styles
            | None \<Rightarrow> styles)
         else styles)"

text \<open>The first action whose lower-cased name contains \<open>inspect\<close>, its link filled in.\<close>

definition inspect_link_of ::
  "runtime \<Rightarrow> action list \<Rightarrow> ustring \<Rightarrow> ustring \<Rightarrow> ustring option" where
  "inspect_link_of rt acts listing_id asset_id =
     (case find (\<lambda>a. contains (asc ''inspect'')
                    (lower rt (case act_name a of None \<Rightarrow> [] | Some n \<Rightarrow> n))) acts of
        None \<Rightarrow> None
      | Some a \<Rightarrow>
          Some (replace (asc ''%assetid%'') asset_id
                  (replace (asc ''%listingid%'') listing_id
                     (case act_link a of None \<Rightarrow> [] | Some l \<Rightarrow> l))))"

definition image_url_of :: "item_desc \<Rightarrow> ustring option" where
  "image_url_of desc =
     (let u = (case icon_url_large desc of
                 Some u \<Rightarrow> u
               | None \<Rightarrow> (case icon_url desc of Some u \<Rightarrow> u | None \<Rightarrow> []))
      in if u \<noteq> [] then Some (asc ''https://community.akamai.steamstatic.com/economy/image/'' @ u)
         else None)"

text \<open>
  The asset lookup \<open>assets[app_id][context_id][asset_id]\<close>, each level only when the key
  is there.
\<close>

definition asset_id_of :: "listing \<Rightarrow> ustring" where
  "asset_id_of l =
     (case asset l of None \<Rightarrow> []
      | Some a \<Rightarrow> (case a_id a of None \<Rightarrow> [] | Some s \<Rightarrow> s))"

definition lookup_desc :: "parser \<Rightarrow> assets \<Rightarrow> listing \<Rightarrow> item_desc option" where
  "lookup_desc self assets l =
     (let app = (case asset l of None \<Rightarrow> app_id self
                 | Some a \<Rightarrow> (case a_appid a of None \<Rightarrow> app_id self | Some s \<Rightarrow> s));
          context_id = (case asset l of None \<Rightarrow> asc ''2''
                 | Some a \<Rightarrow> (case a_contextid a of None \<Rightarrow> asc ''2'' | Some s \<Rightarrow> s))
      in case assets app of
           None \<Rightarrow> None
         | Some by_context \<Rightarrow>
             (case by_context context_id of
                None \<Rightarrow> None
              | Some by_id \<Rightarrow> by_id (asset_id_of l)))"

text \<open>
  The attributes read from the asset, before the filters. Without an asset description
  they keep their initial values; an asset description with none of the keys gives the
  same values.
\<close>

record attributes =
  at_name :: ustring
  at_gems :: "ustring list"
  at_styles :: "nat list"
  at_inspect_link :: "ustring option"
  at_image_url :: "ustring option"

definition asset_attributes ::
  "runtime \<Rightarrow> parser \<Rightarrow> assets \<Rightarrow> ustring \<Rightarrow> ustring \<Rightarrow> listing \<Rightarrow> attributes" where
  "asset_attributes rt self assets name listing_id l =
     (case lookup_desc self assets l of
        None \<Rightarrow>
          \<lparr>at_name = name, at_gems = [], at_styles = [], at_inspect_link = None,
           at_image_url = None\<rparr>
      | Some desc \<Rightarrow>
          (let ds = (case descriptions desc of None \<Rightarrow> [] | Some x \<Rightarrow> x);
               ts = (case tags desc of None \<Rightarrow> [] | Some x \<Rightarrow> x);
               acts = (case actions desc of None \<Rightarrow> [] | Some x \<Rightarrow> x);
               acts' = (if acts \<noteq> [] then acts
                        else (case market_actions desc of None \<Rightarrow> [] | Some x \<Rightarrow> x))
           in \<lparr>at_name = (case market_hash_name desc of None \<Rightarrow> name | Some n \<Rightarrow> n),
               at_gems = asset_gems ds,
               at_styles = asset_styles rt ds ts,
               at_inspect_link = inspect_link_of rt acts' listing_id (asset_id_of l),
               at_image_url = image_url_of desc\<rparr>))"

text \<open>
  \<open>any(desired.lower() in gem_text for desired in desired_gems for gem_text in gems_lower)\<close>
\<close>

definition gems_match :: "runtime \<Rightarrow> ustring list \<Rightarrow> ustring list \<Rightarrow> bool" where
  "gems_match rt desired gems =
     list_ex (\<lambda>d. list_ex (\<lambda>gem_text. contains (lower rt d) gem_text) (map (lower rt) gems))
       desired"

text \<open>\<open>any(s in styles for s in desired_styles)\<close>\<close>

definition has_desired_style :: "nat list \<Rightarrow> nat list \<Rightarrow> bool" where
  "has_desired_style desired styles = list_ex (\<lambda>s. s \<in> set styles) desired"

text \<open>
  The body of the loop of \<open>_process_page_listings\<close> for one entry of \<open>listinginfo\<close>: each
  \<open>continue\<close> of the source is a result of its own, in the order of the source.
\<close>

datatype outcome =
  Skipped_notified | Over_max_price | Gems_mismatch | Styles_mismatch | Found found_item

definition process_listing ::
  "runtime \<Rightarrow> parser \<Rightarrow> assets \<Rightarrow> criteria \<Rightarrow> nat \<Rightarrow> ustring \<times> listing \<Rightarrow> outcome" where
  "process_listing rt self assets q page_num kv =
     (let listing_id = fst kv; l = snd kv in
      if listing_id \<in> notified_listings self then Skipped_notified
      else
        (let price_usd = div100 rt (price_cents l) in
         if max_price q > 0 \<and> price_usd > max_price q then Over_max_price
         else
           (let attrs = asset_attributes rt self assets (item_name q) listing_id l in
            if (case desired_gems q of None \<Rightarrow> False
                | Some dg \<Rightarrow> dg \<noteq> [] \<and> \<not> gems_match rt dg (at_gems attrs))
            then Gems_mismatch
            else if (case desired_styles q of None \<Rightarrow> False
                     | Some dst \<Rightarrow> dst \<noteq> [] \<and> \<not> has_desired_style dst (at_styles attrs))
            then Styles_mismatch
            else Found \<lparr>it_name = at_name attrs, it_price_value = price_usd,
                        it_listing_id = listing_id, it_gems = at_gems attrs,
                        it_styles = at_styles attrs, it_inspect_link = at_inspect_link attrs,
                        it_image_url = at_image_url attrs, it_page = page_num\<rparr>)))"



section \<open>Fetching a page\<close>







section \<open>The scan\<close>






text \<open>A description entry with only a value, for the examples.\<close>

definition text_entry :: "string \<Rightarrow> description" where
  "text_entry s = \<lparr>d_type = None, d_value = Some (asc s)\<rparr>"

section \<open>Notions of the specification\<close>

text \<open>
  The words of the locked marker as the pattern of the source accepts them: either case
  of the first letter, the rest in lower case.
\<close>

definition locked_words :: "ustring list" where
  "locked_words =
     [asc ''Locked'', asc ''locked'', 0x417 # ru_ablokirovano, 0x437 # ru_ablokirovano,
      0x417 # ru_ablokovano, 0x437 # ru_ablokovano]"

definition has_locked_word :: "ustring \<Rightarrow> bool" where
  "has_locked_word clean \<longleftrightarrow> list_ex (\<lambda>w. contains w clean) locked_words"

text \<open>The first pattern of a list, in order, that matches somewhere in the text.\<close>

fun first_match :: "(ustring \<Rightarrow> nat option) list \<Rightarrow> ustring \<Rightarrow> nat option" where
  "first_match [] s = None"
| "first_match (p # ps) s = (case search p s of Some n \<Rightarrow> Some n | None \<Rightarrow> first_match ps s)"

text \<open>
  The style number an entry contributes: none when its clean text has a locked word,
  else the number of the first of the three patterns that matches.
\<close>

definition unlocked_style :: "runtime \<Rightarrow> description \<Rightarrow> nat option" where
  "unlocked_style rt d =
     (let clean = clean_text (value_of d)
      in if has_locked_word clean then None
         else first_match [upgrade_style_at rt, style_at rt, ru_style_at rt] clean)"

text \<open>
  The spellings of \<open>Unlocked\<close> with \<open>ocked\<close> in lower case and the first three letters
  in either case.
\<close>

definition unlocked_spellings :: "ustring list" where
  "unlocked_spellings =
     concat (map (\<lambda>u. concat (map (\<lambda>n. map (\<lambda>l. u # n # l # asc ''ocked'') [76, 108]) [78, 110]))
       [85, 117])"

text \<open>
  The entries the first extraction takes: the clean text is not empty, and either the raw
  value names a prismatic or ethereal gem, or the entry is coloured markup whose clean
  text mentions a gem.
\<close>

definition named_gem :: "description \<Rightarrow> bool" where
  "named_gem d \<longleftrightarrow>
     (let v = value_of d; clean = clean_text v
      in clean \<noteq> [] \<and>
         (contains (asc ''Prismatic:'') v \<or> contains (asc ''Ethereal:'') v \<or>
          d_type d = Some (asc ''html'') \<and> contains (asc ''color'') v \<and>
          (contains (asc ''Gem'') clean \<or> contains (asc ''Prismatic'') clean \<or>
           contains (asc ''Ethereal'') clean)))"

text \<open>The raw value that opens the socket section.\<close>

definition socket_marker :: "description \<Rightarrow> bool" where
  "socket_marker d \<longleftrightarrow>
     contains (asc ''Socket'') (value_of d) \<or> contains (asc ''Gem'') (value_of d)"

text \<open>The clean texts the socket scan keeps.\<close>

definition socket_text :: "ustring \<Rightarrow> bool" where
  "socket_text clean \<longleftrightarrow> clean \<noteq> [] \<and> clean \<noteq> asc ''Empty Socket''"

text \<open>
  Gem extraction as the specification words it: the first strategy tests the clean text
  for \<open>Prismatic:\<close> or \<open>Ethereal:\<close> and nothing else.
\<close>

definition claimed_gems :: "description list \<Rightarrow> ustring list" where
  "claimed_gems ds =
     (let named = filter (\<lambda>c. contains (asc ''Prismatic:'') c \<or> contains (asc ''Ethereal:'') c)
                    (map (\<lambda>d. clean_text (value_of d)) ds)
      in if named \<noteq> [] then named
         else filter socket_text
                (map (\<lambda>d. clean_text (value_of d)) (dropWhile (\<lambda>d. \<not> socket_marker d) ds)))"

text \<open>A description entry of type \<open>html\<close>, for the examples.\<close>

definition html_entry :: "string \<Rightarrow> description" where
  "html_entry s = \<lparr>d_type = Some (asc ''html''), d_value = Some (asc s)\<rparr>"

text \<open>The numbers the two tag patterns find in one tag.\<close>

definition tag_numbers :: "runtime \<Rightarrow> tag \<Rightarrow> nat list" where
  "tag_numbers rt t =
     (case search (tag_style_at rt) (tag_text t) of Some n \<Rightarrow> [n] | None \<Rightarrow> []) @
     (case search (ru_style_at rt) (tag_text t) of Some n \<Rightarrow> [n] | None \<Rightarrow> [])"

text \<open>A tag with only a name, for the examples.\<close>

definition named_tag :: "string \<Rightarrow> tag" where
  "named_tag s = \<lparr>localized_tag_name = None, tag_name = Some (asc s)\<rparr>"

text \<open>The price filter lets the listing pass.\<close>

definition price_ok :: "runtime \<Rightarrow> criteria \<Rightarrow> listing \<Rightarrow> bool" where
  "price_ok rt q l \<longleftrightarrow> \<not> (0 < max_price q \<and> max_price q < div100 rt (price_cents l))"

text \<open>The gems filter lets the listing pass: no gem is asked for, or some desired name,
  lower-cased, is a part of the lower-cased text of some gem of the listing.\<close>

definition gems_ok :: "runtime \<Rightarrow> criteria \<Rightarrow> ustring list \<Rightarrow> bool" where
  "gems_ok rt q gems \<longleftrightarrow>
     (case desired_gems q of
        None \<Rightarrow> True
      | Some dg \<Rightarrow> dg = [] \<or> (\<exists>d\<in>set dg. \<exists>g\<in>set gems. sublist (lower rt d) (lower rt g)))"

text \<open>The styles filter lets the listing pass.\<close>

definition styles_ok :: "criteria \<Rightarrow> nat list \<Rightarrow> bool" where
  "styles_ok q styles \<longleftrightarrow>
     (case desired_styles q of None \<Rightarrow> True | Some dst \<Rightarrow> dst = [] \<or> set dst \<inter> set styles \<noteq> {})"


text \<open>The criteria that ask for nothing, for the examples.\<close>

definition no_criteria :: "ustring \<Rightarrow> criteria" where
  "no_criteria name =
     \<lparr>item_name = name, desired_gems = None, desired_styles = None, max_price = 0\<rparr>"

text \<open>A parser that has reported nothing yet, for the examples.\<close>

definition fresh_parser :: parser where
  "fresh_parser = \<lparr>app_id = asc ''570'', notified_listings = {}\<rparr>"

text \<open>A listing with a price, a fee and no asset, for the examples.\<close>

definition priced_listing :: "int \<Rightarrow> int \<Rightarrow> listing" where
  "priced_listing p f = \<lparr>converted_price = Some p, converted_fee = Some f, asset = None\<rparr>"

text \<open>Assets with one asset description, whose only description entry is
  \<open>Prismatic: Frostbite\<close>, and a listing of that asset, for the examples.\<close>

definition frostbite_assets :: assets where
  "frostbite_assets =
     [asc ''570'' \<mapsto> [asc ''2'' \<mapsto> [asc ''9'' \<mapsto>
        \<lparr>market_hash_name = None, descriptions = Some [text_entry ''Prismatic: Frostbite''],
         tags = None, actions = None, market_actions = None, icon_url_large = None,
         icon_url = None\<rparr>]]]"

definition frostbite_listing :: listing where
  "frostbite_listing =
     \<lparr>converted_price = Some 1000, converted_fee = Some 500,
      asset = Some \<lparr>a_appid = Some (asc ''570''), a_contextid = Some (asc ''2''),
                    a_id = Some (asc ''9'')\<rparr>\<rparr>"




section \<open>Proofs\<close>

subsection \<open>Texts and patterns\<close>

lemma take_eq_prefix: "take (length w) s = w \<longleftrightarrow> prefix w s"
  by (metis append_eq_conv_conj prefix_def)

lemma contains_sublist: "contains w s \<longleftrightarrow> sublist w s"
  by (induction s) (simp_all add: sublist_Cons_right take_eq_prefix del: take_Suc_Cons)

lemma one_of_lit_iff: "(one_of cls s \<bind> lit p) \<noteq> None \<longleftrightarrow> (\<exists>c\<in>set cls. prefix (c # p) s)"
  by (cases s) (auto simp: one_of_def lit_def take_eq_prefix)

lemma locked_at_iff: "locked_at t \<noteq> None \<longleftrightarrow> list_ex (\<lambda>w. prefix w t) locked_words"
proof -
  have "locked_at t \<noteq> None \<longleftrightarrow>
        (one_of [76, 108] t \<bind> lit (asc ''ocked'')) \<noteq> None \<or>
        (one_of [0x417, 0x437] t \<bind> lit ru_ablokirovano) \<noteq> None \<or>
        (one_of [0x417, 0x437] t \<bind> lit ru_ablokovano) \<noteq> None"
    unfolding locked_at_def by (simp split: option.splits)
  also have "\<dots> \<longleftrightarrow> list_ex (\<lambda>w. prefix w t) locked_words"
    unfolding one_of_lit_iff by (auto simp: locked_words_def asc_def)
  finally show ?thesis .
qed

lemma search_iff: "search m s \<noteq> None \<longleftrightarrow> (\<exists>t. suffix t s \<and> m t \<noteq> None)"
  by (induction s) (auto simp: suffix_Cons split: option.splits)

lemma is_locked_iff: "is_locked clean \<longleftrightarrow> has_locked_word clean"
  unfolding is_locked_def has_locked_word_def search_iff locked_at_iff contains_sublist
  by (auto simp: list_ex_iff sublist_altdef')

lemma styles_loop_fold:
  "styles_loop rt ds acc =
   fold (\<lambda>d a. case unlocked_style rt d of None \<Rightarrow> a | Some n \<Rightarrow> add_style n a) ds acc"
  by (induction ds arbitrary: acc)
     (simp_all add: Let_def unlocked_style_def is_locked_iff split: option.splits)

lemma set_add_style: "set (add_style n a) = insert n (set a)"
  by (auto simp: add_style_def)

lemma distinct_add_style: "distinct a \<Longrightarrow> distinct (add_style n a)"
  by (simp add: add_style_def)

lemma set_styles_loop:
  "set (styles_loop rt ds acc) = set acc \<union> {n. \<exists>d\<in>set ds. unlocked_style rt d = Some n}"
  unfolding styles_loop_fold
  by (induction ds arbitrary: acc) (auto simp: set_add_style split: option.splits)

lemma distinct_styles_loop: "distinct acc \<Longrightarrow> distinct (styles_loop rt ds acc)"
  unfolding styles_loop_fold
  by (induction ds arbitrary: acc) (auto simp: distinct_add_style split: option.splits)

lemma unlocked_style_6: "unlocked_style ascii_rt (text_entry ''Upgrade Style 6'') = Some 6"
  by code_simp

lemma unlocked_style_7_locked:
  "unlocked_style ascii_rt (text_entry ''Upgrade Style 7 (Locked)'') = None"
  by code_simp

subsection \<open>Unlocked styles\<close>

text \<open>
  C1, as amended. For every runtime and every list of description entries, the result of
  \<open>extract_unlocked_styles\<close> is sorted ascending and free of duplicates, and its numbers
  are exactly those contributed by an entry whose clean text has no locked word, each
  entry contributing the number of the first of the patterns \<open>Upgrade Style N\<close>,
  \<open>Style N\<close> and the Cyrillic one, in this order, that matches. The locked words are
  \<open>Locked\<close> and the two Cyrillic words with the first letter in either case and the rest
  in lower case. For the entries \<open>Upgrade Style 6\<close> and \<open>Upgrade Style 7 (Locked)\<close> the
  result is \<open>[6]\<close>.
\<close>

theorem extract_unlocked_styles_sorted_unlocked:
  "sorted (extract_unlocked_styles rt ds) \<and> distinct (extract_unlocked_styles rt ds) \<and>
   set (extract_unlocked_styles rt ds) = {n. \<exists>d\<in>set ds. unlocked_style rt d = Some n} \<and>
   extract_unlocked_styles ascii_rt
     [text_entry ''Upgrade Style 6'', text_entry ''Upgrade Style 7 (Locked)''] = [6]"
proof -
  have a: "sorted (extract_unlocked_styles rt ds)"
    by (simp add: extract_unlocked_styles_def)
  have b: "distinct (extract_unlocked_styles rt ds)"
    by (simp add: extract_unlocked_styles_def distinct_styles_loop)
  have c: "set (extract_unlocked_styles rt ds) = {n. \<exists>d\<in>set ds. unlocked_style rt d = Some n}"
    by (simp add: extract_unlocked_styles_def set_styles_loop)
  have d: "extract_unlocked_styles ascii_rt
     [text_entry ''Upgrade Style 6'', text_entry ''Upgrade Style 7 (Locked)''] = [6]"
    by (simp add: extract_unlocked_styles_def styles_loop_fold unlocked_style_6
          unlocked_style_7_locked add_style_def)
  show ?thesis using a b c d by blast
qed

theorem extract_unlocked_styles_sorted_unlocked_witness:
  "sorted (extract_unlocked_styles ascii_rt
             [text_entry ''Upgrade Style 6'', text_entry ''Upgrade Style 7 (Locked)'']) \<and>
   distinct (extract_unlocked_styles ascii_rt
             [text_entry ''Upgrade Style 6'', text_entry ''Upgrade Style 7 (Locked)'']) \<and>
   set (extract_unlocked_styles ascii_rt
             [text_entry ''Upgrade Style 6'', text_entry ''Upgrade Style 7 (Locked)'']) =
     {n. \<exists>d\<in>set [text_entry ''Upgrade Style 6'', text_entry ''Upgrade Style 7 (Locked)''].
           unlocked_style ascii_rt d = Some n} \<and>
   extract_unlocked_styles ascii_rt
     [text_entry ''Upgrade Style 6'', text_entry ''Upgrade Style 7 (Locked)''] = [6]"
  by (rule extract_unlocked_styles_sorted_unlocked)

text \<open>
  C1 as stated fails: the marker is not matched in every letter case. The entry
  \<open>Upgrade Style 7 (LOCKED)\<close> contains \<open>locked\<close> once lower-cased, and contributes 7.
\<close>

theorem locked_upper_case_counterexample:
  "extract_unlocked_styles ascii_rt [text_entry ''Upgrade Style 7 (LOCKED)''] = [7] \<and>
   contains (asc ''locked'') (ascii_lower (clean_text (asc ''Upgrade Style 7 (LOCKED)'')))"
proof -
  have "unlocked_style ascii_rt (text_entry ''Upgrade Style 7 (LOCKED)'') = Some 7"
    by code_simp
  then have "extract_unlocked_styles ascii_rt [text_entry ''Upgrade Style 7 (LOCKED)''] = [7]"
    by (simp add: extract_unlocked_styles_def styles_loop_fold add_style_def)
  moreover have "contains (asc ''locked'') (ascii_lower (clean_text (asc ''Upgrade Style 7 (LOCKED)'')))"
    by code_simp
  ultimately show ?thesis by (rule conjI)
qed

lemma unlocked_imp_locked:
  assumes "list_ex (\<lambda>w. contains w clean) unlocked_spellings"
  shows "has_locked_word clean"
proof -
  from assms obtain w where w: "w \<in> set unlocked_spellings" "sublist w clean"
    by (auto simp: list_ex_iff contains_sublist)
  from w(1) obtain u n l where wl: "w = [u, n] @ (l # asc ''ocked'') @ []" and l: "l = 76 \<or> l = 108"
    by (auto simp: unlocked_spellings_def)
  have "sublist (l # asc ''ocked'') w" unfolding wl by (rule sublist_appendI)
  from this w(2) have "sublist (l # asc ''ocked'') clean"
    by (rule sublist_order.order_trans)
  then have "contains (l # asc ''ocked'') clean" by (simp only: contains_sublist)
  with l show ?thesis
    by (auto simp: has_locked_word_def locked_words_def asc_def)
qed

text \<open>
  C10, as amended. An entry whose clean text contains \<open>Unlocked\<close> with \<open>ocked\<close> in lower
  case (the letters \<open>U\<close>, \<open>n\<close> and \<open>l\<close> in either case) counts as locked: the loop leaves
  the styles as they were, and the result of \<open>extract_unlocked_styles\<close> is the same as
  without the entry. So \<open>Style 6 Unlocked\<close> contributes no style number.
\<close>

theorem unlocked_entry_skipped:
  assumes "list_ex (\<lambda>w. contains w (clean_text (value_of d))) unlocked_spellings"
  shows "is_locked (clean_text (value_of d)) \<and>
         styles_loop rt (d # ds) styles = styles_loop rt ds styles \<and>
         extract_unlocked_styles rt (ds1 @ d # ds2) = extract_unlocked_styles rt (ds1 @ ds2)"
proof -
  have lk: "has_locked_word (clean_text (value_of d))"
    using assms by (rule unlocked_imp_locked)
  then have none: "unlocked_style rt d = None"
    by (simp add: unlocked_style_def)
  have a: "is_locked (clean_text (value_of d))"
    using lk by (simp add: is_locked_iff)
  have b: "styles_loop rt (d # ds) styles = styles_loop rt ds styles"
    using a by simp
  have "styles_loop rt (ds1 @ d # ds2) [] = styles_loop rt (ds1 @ ds2) []"
    unfolding styles_loop_fold using none by simp
  moreover have "styles_loop rt [d] [] = []"
    using a by simp
  ultimately have c: "extract_unlocked_styles rt (ds1 @ d # ds2) = extract_unlocked_styles rt (ds1 @ ds2)"
    by (auto simp: extract_unlocked_styles_def)
  show ?thesis using a b c by blast
qed

theorem unlocked_entry_skipped_witness:
  "list_ex (\<lambda>w. contains w (clean_text (value_of (text_entry ''Style 6 Unlocked'')))) unlocked_spellings \<and>
   extract_unlocked_styles ascii_rt ([] @ text_entry ''Style 6 Unlocked'' # []) = []"
proof -
  have h: "list_ex (\<lambda>w. contains w (clean_text (value_of (text_entry ''Style 6 Unlocked'')))) unlocked_spellings"
    by code_simp
  have e: "extract_unlocked_styles ascii_rt ([] @ []) = []"
    by (simp add: extract_unlocked_styles_def)
  have "extract_unlocked_styles ascii_rt ([] @ text_entry ''Style 6 Unlocked'' # []) =
        extract_unlocked_styles ascii_rt ([] @ [])"
    using unlocked_entry_skipped [OF h] by blast
  with e have "extract_unlocked_styles ascii_rt ([] @ text_entry ''Style 6 Unlocked'' # []) = []"
    by (rule_tac trans)
  with h show ?thesis by (rule_tac conjI)
qed

text \<open>
  C10 as stated fails: \<open>Unlocked\<close> is not matched in every letter case. The entry
  \<open>Style 6 UNLOCKED\<close> contains \<open>unlocked\<close> once lower-cased, and contributes 6.
\<close>

theorem unlocked_upper_case_counterexample:
  "extract_unlocked_styles ascii_rt [text_entry ''Style 6 UNLOCKED''] = [6] \<and>
   contains (asc ''unlocked'') (ascii_lower (clean_text (asc ''Style 6 UNLOCKED'')))"
proof -
  have "unlocked_style ascii_rt (text_entry ''Style 6 UNLOCKED'') = Some 6"
    by code_simp
  then have "extract_unlocked_styles ascii_rt [text_entry ''Style 6 UNLOCKED''] = [6]"
    by (simp add: extract_unlocked_styles_def styles_loop_fold add_style_def)
  moreover have "contains (asc ''unlocked'') (ascii_lower (clean_text (asc ''Style 6 UNLOCKED'')))"
    by code_simp
  ultimately show ?thesis by (rule conjI)
qed

subsection \<open>Gems\<close>

lemma gems_loop_filter:
  "gems_loop ds acc = acc @ map (\<lambda>d. clean_text (value_of d)) (filter named_gem ds)"
  by (induction ds arbitrary: acc) (auto simp: Let_def named_gem_def)

lemma socket_loop_filter:
  "socket_loop ds b acc =
   acc @ filter socket_text
           (map (\<lambda>d. clean_text (value_of d)) (if b then ds else dropWhile (\<lambda>d. \<not> socket_marker d) ds))"
  by (induction ds arbitrary: b acc) (auto simp: Let_def socket_marker_def socket_text_def)

text \<open>
  C2, as amended. Gem extraction tries two strategies in order, the first non-empty
  result winning. The first collects the clean text, where it is not empty, of exactly
  the entries whose raw value contains \<open>Prismatic:\<close> or \<open>Ethereal:\<close>, and of the entries of
  type \<open>html\<close> whose raw value contains \<open>color\<close> and whose clean text contains \<open>Gem\<close>,
  \<open>Prismatic\<close> or \<open>Ethereal\<close>. The second collects every clean text that is neither empty
  nor \<open>Empty Socket\<close>, from the first entry whose raw value contains \<open>Socket\<close> or \<open>Gem\<close>
  onward. No other entry contributes a gem.
\<close>

theorem gems_two_strategies:
  "extract_gems_from_descriptions ds = map (\<lambda>d. clean_text (value_of d)) (filter named_gem ds) \<and>
   extract_socket_gems ds =
     filter socket_text
       (map (\<lambda>d. clean_text (value_of d)) (dropWhile (\<lambda>d. \<not> socket_marker d) ds)) \<and>
   asset_gems ds =
     (if extract_gems_from_descriptions ds \<noteq> [] then extract_gems_from_descriptions ds
      else extract_socket_gems ds)"
  by (simp add: extract_gems_from_descriptions_def extract_socket_gems_def asset_gems_def
        gems_loop_filter socket_loop_filter Let_def)

lemma frostbite_named: "named_gem (text_entry ''Prismatic: Frostbite'')"
  by code_simp

lemma empty_socket_not_named: "\<not> named_gem (text_entry ''Empty Socket'')"
  by code_simp

lemma frostbite_clean: "clean_text (value_of (text_entry ''Prismatic: Frostbite'')) = asc ''Prismatic: Frostbite''"
  by code_simp


theorem gems_two_strategies_witness:
  "asset_gems [text_entry ''Empty Socket'', text_entry ''Prismatic: Frostbite''] =
     [asc ''Prismatic: Frostbite'']"
  using gems_two_strategies [of "[text_entry ''Empty Socket'', text_entry ''Prismatic: Frostbite'']"]
  by (simp add: frostbite_named empty_socket_not_named frostbite_clean)

lemma flame_named: "named_gem (html_entry ''<font color=red>Ethereal Flame</font>'')"
  by code_simp

lemma flame_clean: "clean_text (value_of (html_entry ''<font color=red>Ethereal Flame</font>'')) = asc ''Ethereal Flame''"
  by code_simp

lemma flame_no_colon: "\<not> contains (asc ''Prismatic:'') (asc ''Ethereal Flame'') \<and> \<not> contains (asc ''Ethereal:'') (asc ''Ethereal Flame'')"
  by code_simp

lemma flame_no_socket: "\<not> socket_marker (html_entry ''<font color=red>Ethereal Flame</font>'')"
  by code_simp


text \<open>
  C2 as stated fails: the entry of type \<open>html\<close> with the coloured text \<open>Ethereal Flame\<close>
  has no \<open>Prismatic:\<close> or \<open>Ethereal:\<close> in its clean text and no \<open>Socket\<close> or \<open>Gem\<close> in its
  value, so the two rules of the claim collect nothing, and the code collects it.
\<close>

theorem coloured_gem_counterexample:
  "asset_gems [html_entry ''<font color=red>Ethereal Flame</font>''] = [asc ''Ethereal Flame''] \<and>
   claimed_gems [html_entry ''<font color=red>Ethereal Flame</font>''] = []"
proof -
  have "asset_gems [html_entry ''<font color=red>Ethereal Flame</font>''] = [asc ''Ethereal Flame'']"
    by (simp add: extract_gems_from_descriptions_def asset_gems_def gems_loop_filter flame_named flame_clean)
  moreover have "claimed_gems [html_entry ''<font color=red>Ethereal Flame</font>''] = []"
    by (simp add: claimed_gems_def flame_clean flame_no_colon flame_no_socket)
  ultimately show ?thesis by (rule conjI)
qed

subsection \<open>Styles from tags\<close>

lemma raise_max_max: "raise_max r m = (case r of None \<Rightarrow> m | Some n \<Rightarrow> max n m)"
  by (auto simp: raise_max_def split: option.splits)

lemma max_style_loop_fold:
  "max_style_loop rt ts m = fold max (concat (map (tag_numbers rt) ts)) m"
  by (induction ts arbitrary: m)
     (auto simp: Let_def tag_numbers_def raise_max_max split: option.splits)

lemma fold_max_0: "ns \<noteq> [] \<Longrightarrow> fold max ns (0::nat) = Max (set ns)"
proof -
  assume "ns \<noteq> []"
  have "fold max ns (0::nat) = Max (set (0 # ns))" by (rule Max.set_eq_fold [symmetric])
  also have "\<dots> = Max (set ns)" using \<open>ns \<noteq> []\<close> by (simp add: max_def)
  finally show ?thesis .
qed

lemma get_max_style_char:
  "get_max_style_from_tags rt ts =
     (let ns = concat (map (tag_numbers rt) ts)
      in if ns = [] \<or> Max (set ns) = 0 then None else Some (Max (set ns)))"
proof -
  define ns where "ns = concat (map (tag_numbers rt) ts)"
  have loop: "max_style_loop rt ts 0 = fold max ns 0"
    unfolding ns_def by (rule max_style_loop_fold)
  have "get_max_style_from_tags rt ts =
        (if ns = [] \<or> Max (set ns) = 0 then None else Some (Max (set ns)))"
  proof (cases "ns = []")
    case True
    then show ?thesis by (simp add: get_max_style_from_tags_def loop)
  next
    case False
    then have "ts \<noteq> []" unfolding ns_def by auto
    with False show ?thesis
      by (simp add: get_max_style_from_tags_def loop fold_max_0 Let_def)
  qed
  then show ?thesis unfolding ns_def Let_def .
qed

text \<open>
  C3, as amended. For every list of tags, \<open>get_max_style_from_tags\<close> returns the largest
  number that the English and the Cyrillic tag pattern find in the tags' localized names
  (or names), when that number is positive; it returns none when no tag matches and when
  every number found is 0. During normalization, when the descriptions give no style and
  the tags give the maximum \<open>k\<close>, the styles of the listing are exactly \<open>1, ..., k\<close>.
\<close>

theorem max_style_from_tags:
  "get_max_style_from_tags rt ts =
     (let ns = concat (map (tag_numbers rt) ts)
      in if ns = [] \<or> Max (set ns) = 0 then None else Some (Max (set ns))) \<and>
   (extract_unlocked_styles rt ds = [] \<and> get_max_style_from_tags rt ts = Some k \<longrightarrow>
      0 < k \<and> asset_styles rt ds ts = [1..<Suc k]) \<and>
   (lookup_desc self assets l = Some desc \<and> descriptions desc = Some ds \<and> tags desc = Some ts \<and>
    extract_unlocked_styles rt ds = [] \<and> get_max_style_from_tags rt ts = Some k \<longrightarrow>
      at_styles (asset_attributes rt self assets name listing_id l) = [1..<Suc k])"
proof -
  have pos: "0 < k" if "get_max_style_from_tags rt ts = Some k"
    using that by (auto simp: get_max_style_from_tags_def Let_def split: if_splits)
  have st: "asset_styles rt ds ts = [1..<Suc k]"
    if "extract_unlocked_styles rt ds = []" "get_max_style_from_tags rt ts = Some k"
    using that pos by (simp add: asset_styles_def)
  have "at_styles (asset_attributes rt self assets name listing_id l) = asset_styles rt ds ts"
    if "lookup_desc self assets l = Some desc" "descriptions desc = Some ds" "tags desc = Some ts"
    using that by (simp add: asset_attributes_def Let_def)
  with st pos get_max_style_char show ?thesis by metis
qed

lemma tag_numbers_20: "tag_numbers ascii_rt (named_tag ''Style Upgrade 20'') = [20]"
  by code_simp

lemma tag_numbers_0: "tag_numbers ascii_rt (named_tag ''Style 0'') = [0]"
  by code_simp

lemma no_entries_no_styles: "extract_unlocked_styles ascii_rt [] = []"
  by (simp add: extract_unlocked_styles_def)


theorem max_style_from_tags_witness:
  "get_max_style_from_tags ascii_rt [named_tag ''Style 0'', named_tag ''Style Upgrade 20''] = Some 20 \<and>
   asset_styles ascii_rt [] [named_tag ''Style 0'', named_tag ''Style Upgrade 20''] = [1..<Suc 20]"
proof -
  have g: "get_max_style_from_tags ascii_rt [named_tag ''Style 0'', named_tag ''Style Upgrade 20''] = Some 20"
    using max_style_from_tags [of ascii_rt "[named_tag ''Style 0'', named_tag ''Style Upgrade 20'']"]
    by (simp add: tag_numbers_20 tag_numbers_0)
  with no_entries_no_styles have "asset_styles ascii_rt [] [named_tag ''Style 0'', named_tag ''Style Upgrade 20''] = [1..<Suc 20]"
    using max_style_from_tags [of ascii_rt "[named_tag ''Style 0'', named_tag ''Style Upgrade 20'']" "[]" 20]
    by blast
  with g show ?thesis by (rule_tac conjI)
qed

text \<open>
  C3 as stated fails: in the tag \<open>Style 0\<close> the pattern finds the number 0, so a tag
  matches and the maximum found is 0, and the function returns none.
\<close>

theorem style_zero_counterexample:
  "tag_numbers ascii_rt (named_tag ''Style 0'') = [0] \<and>
   get_max_style_from_tags ascii_rt [named_tag ''Style 0''] = None"
  using tag_numbers_0 by (simp add: get_max_style_char)

subsection \<open>The listings of a page\<close>

lemma gems_match_iff:
  "gems_match rt dg gems \<longleftrightarrow> (\<exists>d\<in>set dg. \<exists>g\<in>set gems. sublist (lower rt d) (lower rt g))"
  by (simp add: gems_match_def list_ex_iff contains_sublist)

lemma has_desired_style_iff: "has_desired_style dst styles \<longleftrightarrow> set dst \<inter> set styles \<noteq> {}"
  by (auto simp: has_desired_style_def list_ex_iff)

lemma process_listing_cases:
  "process_listing rt self assets q page_num (lid, l) =
     (if lid \<in> notified_listings self then Skipped_notified
      else if \<not> price_ok rt q l then Over_max_price
      else if \<not> gems_ok rt q (at_gems (asset_attributes rt self assets (item_name q) lid l))
        then Gems_mismatch
      else if \<not> styles_ok q (at_styles (asset_attributes rt self assets (item_name q) lid l))
        then Styles_mismatch
      else Found \<lparr>it_name = at_name (asset_attributes rt self assets (item_name q) lid l),
                  it_price_value = div100 rt (price_cents l), it_listing_id = lid,
                  it_gems = at_gems (asset_attributes rt self assets (item_name q) lid l),
                  it_styles = at_styles (asset_attributes rt self assets (item_name q) lid l),
                  it_inspect_link =
                    at_inspect_link (asset_attributes rt self assets (item_name q) lid l),
                  it_image_url = at_image_url (asset_attributes rt self assets (item_name q) lid l),
                  it_page = page_num\<rparr>)"
  by (simp add: process_listing_def Let_def price_ok_def gems_ok_def styles_ok_def
        gems_match_iff has_desired_style_iff split: option.splits)














text \<open>
  C5. A listing is found exactly when it is not notified and the price filter, the gems
  filter and the styles filter each let it pass. With no desired gems, no desired styles
  and maximum price 0 no filter rejects any listing, and a listing that is not notified
  is found, with its identifier and its price; so the listing with price 1000 and fee 500
  is found under maximum price 0.
\<close>

theorem filters_conjoined:
  "((\<exists>it. process_listing rt self assets q page_num (lid, l) = Found it) \<longleftrightarrow>
      lid \<notin> notified_listings self \<and> price_ok rt q l \<and>
      gems_ok rt q (at_gems (asset_attributes rt self assets (item_name q) lid l)) \<and>
      styles_ok q (at_styles (asset_attributes rt self assets (item_name q) lid l))) \<and>
   (lid \<notin> notified_listings self \<and> desired_gems q \<in> {None, Some []} \<and>
    desired_styles q \<in> {None, Some []} \<and> max_price q = 0 \<longrightarrow>
      (\<exists>it. process_listing rt self assets q page_num (lid, l) = Found it \<and>
            it_listing_id it = lid \<and> it_price_value it = div100 rt (price_cents l))) \<and>
   (desired_gems q \<in> {None, Some []} \<and> desired_styles q \<in> {None, Some []} \<and>
    max_price q = 0 \<longrightarrow>
      process_listing rt self assets q page_num (lid, l) \<notin>
        {Over_max_price, Gems_mismatch, Styles_mismatch})"
proof -
  have a: "(\<exists>it. process_listing rt self assets q page_num (lid, l) = Found it) \<longleftrightarrow>
      lid \<notin> notified_listings self \<and> price_ok rt q l \<and>
      gems_ok rt q (at_gems (asset_attributes rt self assets (item_name q) lid l)) \<and>
      styles_ok q (at_styles (asset_attributes rt self assets (item_name q) lid l))"
    by (simp add: process_listing_cases)
  have b: "\<exists>it. process_listing rt self assets q page_num (lid, l) = Found it \<and>
            it_listing_id it = lid \<and> it_price_value it = div100 rt (price_cents l)"
    if "lid \<notin> notified_listings self" "desired_gems q \<in> {None, Some []}"
       "desired_styles q \<in> {None, Some []}" "max_price q = 0"
    using that by (auto simp: process_listing_cases price_ok_def gems_ok_def styles_ok_def)
  have c: "process_listing rt self assets q page_num (lid, l) \<notin>
        {Over_max_price, Gems_mismatch, Styles_mismatch}"
    if "desired_gems q \<in> {None, Some []}" "desired_styles q \<in> {None, Some []}"
       "max_price q = 0"
    using that by (auto simp: process_listing_cases price_ok_def gems_ok_def styles_ok_def)
  show ?thesis using a b c by blast
qed

lemma fifteen_hundred_cents: "price_cents (priced_listing 1000 500) = 1500"
  by (simp add: price_cents_def priced_listing_def)

lemma fifteen_dollars: "div100 ascii_rt (price_cents (priced_listing 1000 500)) = 15"
  by (simp add: ascii_rt_def price_cents_def priced_listing_def)

theorem filters_conjoined_witness:
  "\<exists>it. process_listing ascii_rt fresh_parser Map.empty (no_criteria (asc ''Onibi'')) 1
          (asc ''1'', priced_listing 1000 500) = Found it \<and>
        it_listing_id it = asc ''1'' \<and> it_price_value it = 15"
  using filters_conjoined [of ascii_rt fresh_parser Map.empty "no_criteria (asc ''Onibi'')" 1 "asc ''1''"
      "priced_listing 1000 500"]
  by (simp add: fresh_parser_def no_criteria_def fifteen_dollars)

text \<open>
  C6. For a listing that reaches the gems filter, with a non-empty list of desired gems,
  the filter keeps the listing if and only if some desired name, lower-cased, is a
  contiguous part of the lower-cased text of some gem extracted for the listing. The
  listing whose asset has the description \<open>Prismatic: Frostbite\<close> is kept for the desired
  gem \<open>frost\<close>.
\<close>

theorem gems_filter_any_match:
  assumes "lid \<notin> notified_listings self" and "price_ok rt q l"
    and "desired_gems q = Some dg" and "dg \<noteq> []"
  shows "process_listing rt self assets q page_num (lid, l) \<noteq> Gems_mismatch \<longleftrightarrow>
         (\<exists>d\<in>set dg. \<exists>g\<in>set (at_gems (asset_attributes rt self assets (item_name q) lid l)).
            sublist (lower rt d) (lower rt g))"
  using assms by (simp add: process_listing_cases gems_ok_def)

lemma frostbite_gems:
  "at_gems (asset_attributes ascii_rt fresh_parser frostbite_assets name lid frostbite_listing) =
   [asc ''Prismatic: Frostbite'']"
  by (simp add: asset_attributes_def lookup_desc_def asset_id_of_def frostbite_assets_def
        frostbite_listing_def asset_gems_def extract_gems_from_descriptions_def
        gems_loop_filter frostbite_named frostbite_clean Let_def)

lemma frost_matches: "gems_match ascii_rt [asc ''frost''] [asc ''Prismatic: Frostbite'']"
  by code_simp

theorem gems_filter_any_match_witness:
  "process_listing ascii_rt fresh_parser frostbite_assets
     \<lparr>item_name = asc ''Onibi'', desired_gems = Some [asc ''frost''], desired_styles = None,
      max_price = 0\<rparr> 1 (asc ''1'', frostbite_listing) \<noteq> Gems_mismatch"
proof -
  have m: "\<exists>d\<in>set [asc ''frost''].
            \<exists>g\<in>set (at_gems (asset_attributes ascii_rt fresh_parser frostbite_assets
                      (item_name \<lparr>item_name = asc ''Onibi'', desired_gems = Some [asc ''frost''],
                         desired_styles = None, max_price = 0\<rparr>) (asc ''1'') frostbite_listing)).
              sublist (lower ascii_rt d) (lower ascii_rt g)"
    using frost_matches unfolding frostbite_gems gems_match_iff .
  have n: "asc ''1'' \<notin> notified_listings fresh_parser"
    by (simp add: fresh_parser_def)
  have p: "price_ok ascii_rt \<lparr>item_name = asc ''Onibi'', desired_gems = Some [asc ''frost''],
      desired_styles = None, max_price = 0\<rparr> frostbite_listing"
    by (simp add: price_ok_def)
  show ?thesis
    using gems_filter_any_match [OF n p, of "[asc ''frost'']" frostbite_assets 1] m by simp
qed

text \<open>
  C7. The price of a listing in cents is its converted price plus its converted fee,
  each 0 when absent. The price filter rejects a listing that is not notified exactly
  when the maximum price is positive and the price in dollars exceeds it; a price equal
  to the maximum is accepted; a found item carries that price. When the quotient by 100
  is exact, the price exceeds the maximum exactly when the cents exceed a hundred times
  the maximum.
\<close>

theorem price_filter_threshold:
  "price_cents l =
     (case converted_price l of None \<Rightarrow> 0 | Some p \<Rightarrow> p) +
     (case converted_fee l of None \<Rightarrow> 0 | Some f \<Rightarrow> f) \<and>
   (process_listing rt self assets q page_num (lid, l) = Over_max_price \<longleftrightarrow>
      lid \<notin> notified_listings self \<and> 0 < max_price q \<and>
      max_price q < div100 rt (price_cents l)) \<and>
   (div100 rt (price_cents l) = max_price q \<longrightarrow>
      process_listing rt self assets q page_num (lid, l) \<noteq> Over_max_price) \<and>
   (process_listing rt self assets q page_num (lid, l) = Found it \<longrightarrow>
      it_price_value it = div100 rt (price_cents l)) \<and>
   (div100 rt = (\<lambda>p. real_of_int p / 100) \<longrightarrow>
      (process_listing rt self assets q page_num (lid, l) = Over_max_price \<longleftrightarrow>
         lid \<notin> notified_listings self \<and> 0 < max_price q \<and>
         100 * max_price q < real_of_int (price_cents l)))"
proof -
  have a: "process_listing rt self assets q page_num (lid, l) = Over_max_price \<longleftrightarrow>
      lid \<notin> notified_listings self \<and> 0 < max_price q \<and>
      max_price q < div100 rt (price_cents l)"
    by (auto simp: process_listing_cases price_ok_def)
  have b: "process_listing rt self assets q page_num (lid, l) = Found it \<longrightarrow>
      it_price_value it = div100 rt (price_cents l)"
    by (auto simp: process_listing_cases split: if_splits)
  have c: "div100 rt = (\<lambda>p. real_of_int p / 100) \<longrightarrow>
      (max_price q < div100 rt (price_cents l) \<longleftrightarrow>
       100 * max_price q < real_of_int (price_cents l))"
    by (auto simp: field_simps)
  show ?thesis
    using a b c by (simp add: price_cents_def)
qed

theorem price_filter_threshold_witness:
  "price_cents (priced_listing 1000 500) = 1500 \<and>
   process_listing ascii_rt fresh_parser Map.empty
     \<lparr>item_name = asc ''Onibi'', desired_gems = None, desired_styles = None, max_price = 15\<rparr> 1
     (asc ''1'', priced_listing 1000 500) \<noteq> Over_max_price \<and>
   process_listing ascii_rt fresh_parser Map.empty
     \<lparr>item_name = asc ''Onibi'', desired_gems = None, desired_styles = None, max_price = 10\<rparr> 1
     (asc ''1'', priced_listing 1000 500) = Over_max_price"
  using price_filter_threshold [of "priced_listing 1000 500" ascii_rt fresh_parser Map.empty
      "\<lparr>item_name = asc ''Onibi'', desired_gems = None, desired_styles = None, max_price = 15\<rparr>"
      1 "asc ''1''"]
    price_filter_threshold [of "priced_listing 1000 500" ascii_rt fresh_parser Map.empty
      "\<lparr>item_name = asc ''Onibi'', desired_gems = None, desired_styles = None, max_price = 10\<rparr>"
      1 "asc ''1''"]
  by (simp add: fifteen_hundred_cents fresh_parser_def ascii_rt_def)

subsection \<open>Fetching and scanning\<close>















end
